theory Spec2Isabelle
  imports Main "HOL-Library.Sublist"
begin

section \<open>Values exchanged with the remote service\<close>

text \<open>
  A JSON value as \<^verbatim>\<open>response.json()\<close> hands it to the client, and as
  \<^verbatim>\<open>JSON.stringify\<close> receives it. The client never computes with numbers: a number
  is kept as the text JavaScript prints for it (\<^verbatim>\<open>String(n)\<close>, which for a finite
  number is also what \<^verbatim>\<open>JSON.stringify\<close> writes), so zero is \<^verbatim>\<open>0\<close>. An object is
  its list of own properties in insertion order; the keys of an object are pairwise
  different.
\<close>

datatype json =
    JNull
  | JBool bool
  | JNum string
  | JStr string
  | JArr "json list"
  | JObj "(string \<times> json) list"

text \<open>
  A JavaScript object literal as a caller passes it to a facade: a property may hold
  \<^verbatim>\<open>undefined\<close> (\<open>None\<close>), which \<^verbatim>\<open>JSON.stringify\<close> leaves out.
\<close>

type_synonym object = "(string \<times> json option) list"

text \<open>An exception value: the name of its class and its \<^verbatim>\<open>message\<close>.\<close>

datatype js_error = Thrown (name: string) (message: string)

text \<open>The \<^verbatim>\<open>Method\<close> enum of \<^verbatim>\<open>api.interfaces.ts\<close>.\<close>

datatype Method = GET | POST | PUT | DELETE

text \<open>The \<^verbatim>\<open>Status\<close> enum of \<^verbatim>\<open>api.interfaces.ts\<close>, by its string values.\<close>

datatype Status = Success | Failed


text \<open>What one call of \<^verbatim>\<open>fetch(url, {method, headers, body})\<close> sends.\<close>

record request =
  url :: string
  http_method :: Method
  headers :: "(string \<times> string) list"
  body :: "json option"

text \<open>
  What the client reads of a response: \<^verbatim>\<open>response.status\<close>, and the outcome of
  \<^verbatim>\<open>response.json()\<close>, which is the parsed body or the exception of the parser.
  \<^verbatim>\<open>response.ok\<close> is the status being in the range 200 to 299.
\<close>

record response =
  status :: nat
  response_json :: "js_error + json"

definition ok :: "response \<Rightarrow> bool" where
  "ok r = (200 \<le> status r \<and> status r \<le> 299)"

text \<open>\<^verbatim>\<open>fetch\<close> rejects (no response at all) or resolves with a response.\<close>

datatype fetch_result = Rejected js_error | Resolved response

text \<open>
  The surroundings of the library: the constant \<^verbatim>\<open>BaseUrl\<close> of \<^verbatim>\<open>const.js\<close>,
  and the remote service, which decides the outcome of each request.
\<close>

record env =
  BaseUrl :: string
  remote :: "request \<Rightarrow> fetch_result"

text \<open>A remote service that gives the same outcome to every request.\<close>

definition remote_always :: "fetch_result \<Rightarrow> request \<Rightarrow> fetch_result" where
  "remote_always x req = x"

text \<open>
  The observable effects of the library: the requests handed to \<^verbatim>\<open>fetch\<close> and the
  lines written with \<^verbatim>\<open>console.error\<close>, both oldest first.
\<close>

record world =
  fetched :: "request list"
  console_error :: "string list"

definition world0 :: world where
  "world0 = \<lparr>fetched = [], console_error = []\<rparr>"

type_synonym outcome = "(js_error + json) \<times> world"

section \<open>JavaScript conversions the integrations rely on\<close>

fun show_nat :: "nat \<Rightarrow> string" where
  "show_nat n =
     (if n < 10 then [''0123456789'' ! n]
      else show_nat (n div 10) @ [''0123456789'' ! (n mod 10)])"

declare show_nat.simps [simp del]

fun join_comma :: "string list \<Rightarrow> string" where
  "join_comma [] = ''''"
| "join_comma [s] = s"
| "join_comma (s # t # ss) = s @ '','' @ join_comma (t # ss)"

text \<open>
  \<^verbatim>\<open>String(v)\<close>, which \<^verbatim>\<open>new Error(v)\<close> applies to its argument. An array is its
  elements joined by commas, \<^verbatim>\<open>null\<close> elements being empty. An object is
  \<^verbatim>\<open>[object Object]\<close> through the \<^verbatim>\<open>toString\<close> it inherits; when it has a property
  of its own under that key, which in a parsed body is never a function, the conversion
  finds nothing to call that gives a primitive and throws (the message is the one V8
  gives). The first element of an array that throws ends the conversion of the array.
\<close>

definition cannot_convert :: js_error where
  "cannot_convert = Thrown ''TypeError'' ''Cannot convert object to primitive value''"

fun ToString :: "json \<Rightarrow> js_error + string"
  and element_strings :: "json list \<Rightarrow> js_error + string list" where
  "ToString JNull = Inr ''null''"
| "ToString (JBool b) = Inr (if b then ''true'' else ''false'')"
| "ToString (JNum t) = Inr t"
| "ToString (JStr s) = Inr s"
| "ToString (JArr xs) =
     (case element_strings xs of Inl e \<Rightarrow> Inl e | Inr ss \<Rightarrow> Inr (join_comma ss))"
| "ToString (JObj ps) =
     (case map_of ps ''toString'' of
        None \<Rightarrow> Inr ''[object Object]''
      | Some f \<Rightarrow> Inl cannot_convert)"
| "element_strings [] = Inr []"
| "element_strings (x # xs) =
     (case (case x of JNull \<Rightarrow> Inr '''' | _ \<Rightarrow> ToString x) of
        Inl e \<Rightarrow> Inl e
      | Inr s \<Rightarrow>
          (case element_strings xs of Inl e \<Rightarrow> Inl e | Inr ss \<Rightarrow> Inr (s # ss)))"

text \<open>Truthiness, as \<^verbatim>\<open>||\<close> and \<^verbatim>\<open>!\<close> test it.\<close>

fun truthy :: "json \<Rightarrow> bool" where
  "truthy JNull = False"
| "truthy (JBool b) = b"
| "truthy (JNum t) = (t \<noteq> ''0'')"
| "truthy (JStr s) = (s \<noteq> '''')"
| "truthy (JArr xs) = True"
| "truthy (JObj ps) = True"

text \<open>
  \<^verbatim>\<open>errorBody.error\<close>: a property read. On \<^verbatim>\<open>null\<close> it throws (the message is
  the one V8 gives); on an object it is the property or \<^verbatim>\<open>undefined\<close>; on every other
  value it is \<^verbatim>\<open>undefined\<close>.
\<close>

fun read_error :: "json \<Rightarrow> js_error + json option" where
  "read_error JNull =
     Inl (Thrown ''TypeError'' ''Cannot read properties of null (reading 'error')'')"
| "read_error (JObj ps) = Inr (map_of ps ''error'')"
| "read_error v = Inr None"

text \<open>
  \<^verbatim>\<open>errorBody.error || `HTTP error! status: ${response.status}`\<close>, as the message
  that \<^verbatim>\<open>new Error\<close> makes of it, or what that conversion throws.
\<close>

fun serverErrorMessage :: "json option \<Rightarrow> nat \<Rightarrow> js_error + string" where
  "serverErrorMessage None st = Inr (''HTTP error! status: '' @ show_nat st)"
| "serverErrorMessage (Some v) st =
     (if truthy v then ToString v else Inr (''HTTP error! status: '' @ show_nat st))"

text \<open>
  \<^verbatim>\<open>{ ...payload, provider }\<close>: the properties of the payload in their order, then
  \<^verbatim>\<open>provider\<close> assigned (in place when the payload has that key, at the end otherwise).
\<close>

fun set_prop :: "string \<Rightarrow> json option \<Rightarrow> object \<Rightarrow> object" where
  "set_prop k v [] = [(k, v)]"
| "set_prop k v (p # ps) = (if fst p = k then (k, v) # ps else p # set_prop k v ps)"

definition with_provider :: "object \<Rightarrow> string option \<Rightarrow> object" where
  "with_provider payload provider = set_prop ''provider'' (map_option JStr provider) payload"

text \<open>
  \<^verbatim>\<open>JSON.stringify\<close> of an object literal, as the JSON value its text denotes:
  properties holding \<^verbatim>\<open>undefined\<close> are left out.
\<close>

fun defined_props :: "object \<Rightarrow> (string \<times> json) list" where
  "defined_props [] = []"
| "defined_props ((k, None) # ps) = defined_props ps"
| "defined_props ((k, Some v) # ps) = (k, v) # defined_props ps"

definition JSON_stringify :: "object \<Rightarrow> json" where
  "JSON_stringify obj = JObj (defined_props obj)"

section \<open>Client: the process-wide configuration\<close>

text \<open>
  The string enums \<^verbatim>\<open>CronosEvm\<close> and \<^verbatim>\<open>CronosZkEvm\<close>. A member is its
  string at run time, and \<^verbatim>\<open>Client.init\<close> stores the string it is handed.
\<close>

datatype chain = CronosEvm_Mainnet | CronosEvm_Testnet | CronosZkEvm_Mainnet | CronosZkEvm_Testnet

fun chain_value :: "chain \<Rightarrow> string" where
  "chain_value CronosEvm_Mainnet = ''25''"
| "chain_value CronosEvm_Testnet = ''338''"
| "chain_value CronosZkEvm_Mainnet = ''388''"
| "chain_value CronosZkEvm_Testnet = ''240''"

record Config =
  config_chain :: string
  config_apiKey :: string
  config_provider :: "string option"

text \<open>The three static fields of \<^verbatim>\<open>Client\<close>; \<open>None\<close> is \<^verbatim>\<open>undefined\<close>.\<close>

record client =
  Client_chainId :: "string option"
  Client_apiKey :: "string option"
  Client_provider :: "string option"

text \<open>The fields before any call of \<^verbatim>\<open>Client.init\<close>.\<close>

definition uninitialised :: client where
  "uninitialised = \<lparr>Client_chainId = None, Client_apiKey = None, Client_provider = None\<rparr>"

definition init :: "Config \<Rightarrow> client \<Rightarrow> client" where
  "init config C =
     C\<lparr>Client_chainId := Some (config_chain config),
       Client_apiKey := Some (config_apiKey config),
       Client_provider := config_provider config\<rparr>"

definition api_key_not_configured :: js_error where
  "api_key_not_configured =
     Thrown ''Error''
       ''API key not configured. Call Client.configure({ apiKey: 'your-api-key' }) first.''"

definition chain_id_not_configured :: js_error where
  "chain_id_not_configured =
     Thrown ''Error''
       ''Chain ID not configured. Call Client.configure({ chain: CronosZkEvm.Testnet }) first.''"

text \<open>\<^verbatim>\<open>!this.apiKey\<close> holds for \<^verbatim>\<open>undefined\<close> and for the empty string.\<close>

definition getApiKey :: "client \<Rightarrow> js_error + string" where
  "getApiKey C =
     (case Client_apiKey C of
        None \<Rightarrow> Inl api_key_not_configured
      | Some k \<Rightarrow> if k = '''' then Inl api_key_not_configured else Inr k)"

definition getProvider :: "client \<Rightarrow> js_error + string option" where
  "getProvider C = Inr (Client_provider C)"

definition getChainId :: "client \<Rightarrow> js_error + string" where
  "getChainId C =
     (case Client_chainId C of
        None \<Rightarrow> Inl chain_id_not_configured
      | Some c \<Rightarrow> if c = '''' then Inl chain_id_not_configured else Inr c)"

section \<open>The integrations: one request each\<close>

definition json_headers :: "(string \<times> string) list" where
  "json_headers = [(''Content-Type'', ''application/json'')]"

text \<open>
  The \<^verbatim>\<open>try\<close> block that every integration function repeats: the call of
  \<^verbatim>\<open>fetch\<close>, the test of \<^verbatim>\<open>response.ok\<close>, and the parsed body.
\<close>

definition try_block :: "fetch_result \<Rightarrow> js_error + json" where
  "try_block x =
     (case x of
        Rejected e \<Rightarrow> Inl e
      | Resolved r \<Rightarrow>
          if \<not> ok r then
            (case response_json r of
               Inl e \<Rightarrow> Inl e
             | Inr errorBody \<Rightarrow>
                 (case read_error errorBody of
                    Inl e \<Rightarrow> Inl e
                  | Inr v \<Rightarrow>
                      (case serverErrorMessage v (status r) of
                         Inl e \<Rightarrow> Inl e
                       | Inr m \<Rightarrow> Inl (Thrown ''Error'' m))))
          else response_json r)"

text \<open>
  The whole function body: the request is handed to \<^verbatim>\<open>fetch\<close>; whatever the
  \<^verbatim>\<open>try\<close> block throws is logged under the function's tag and thrown again as a new
  \<^verbatim>\<open>Error\<close> whose message starts with the function's own text.
\<close>

definition perform :: "string \<Rightarrow> string \<Rightarrow> env \<Rightarrow> request \<Rightarrow> world \<Rightarrow> outcome" where
  "perform tag failed E req w =
     (let w1 = w\<lparr>fetched := fetched w @ [req]\<rparr> in
      case try_block (remote E req) of
        Inr v \<Rightarrow> (Inr v, w1)
      | Inl e \<Rightarrow>
          (Inl (Thrown ''Error'' (failed @ '': '' @ message e)),
           w1\<lparr>console_error := console_error w1 @ [''['' @ tag @ ''] - '' @ message e]\<rparr>))"

definition get_request :: "string \<Rightarrow> request" where
  "get_request u = \<lparr>url = u, http_method = GET, headers = json_headers, body = None\<rparr>"

definition post_request :: "string \<Rightarrow> json option \<Rightarrow> request" where
  "post_request u b = \<lparr>url = u, http_method = POST, headers = json_headers, body = b\<rparr>"

definition platform :: string where
  "platform = ''https://developer-platform-api.crypto.com''"

subsection \<open>wallet.api.ts\<close>

definition createWallet :: "env \<Rightarrow> world \<Rightarrow> outcome" where
  "createWallet E =
     perform ''walletApi/createWallet'' ''Failed to create wallet'' E
       (post_request (BaseUrl E @ ''/v1/cdc-developer-platform/wallet'') None)"

definition getBalance :: "env \<Rightarrow> string \<Rightarrow> string \<Rightarrow> world \<Rightarrow> outcome" where
  "getBalance E chainId address =
     perform ''walletApi/getBalance'' ''Failed to fetch wallet balance'' E
       (get_request (BaseUrl E @ ''/api/v1/cdc-developer-platform/wallet/'' @ chainId
          @ ''/balance?address='' @ address))"

text \<open>
  The other revision of the same two functions, kept in the same file: the address is
  written out, and \<^verbatim>\<open>getBalance\<close> takes the API key.
\<close>

definition createWallet_v2 :: "env \<Rightarrow> world \<Rightarrow> outcome" where
  "createWallet_v2 E =
     perform ''walletApi/createWallet'' ''Failed to create wallet'' E
       (post_request (platform @ ''/api/v1/cdc-developer-platform/wallet'') None)"

definition getBalance_v2 :: "env \<Rightarrow> string \<Rightarrow> string \<Rightarrow> string \<Rightarrow> world \<Rightarrow> outcome" where
  "getBalance_v2 E chainId address apiKey =
     perform ''walletApi/getBalance'' ''Failed to fetch wallet balance'' E
       (get_request (platform @ ''/api/v1/cdc-developer-platform/wallet/'' @ chainId
          @ ''/balance?address='' @ address @ ''&apiKey='' @ apiKey))"

subsection \<open>token.api.ts\<close>

definition getNativeTokenBalance :: "env \<Rightarrow> string \<Rightarrow> string \<Rightarrow> string \<Rightarrow> world \<Rightarrow> outcome" where
  "getNativeTokenBalance E chainId address apiKey =
     perform ''tokenApi/getNativeTokenBalance'' ''Failed to fetch native token balance'' E
       (get_request (platform @ ''/api/v1/cdc-developer-platform/token/'' @ chainId
          @ ''/native-token-balance?address='' @ address @ ''&apiKey='' @ apiKey))"

text \<open>A parameter with a default takes it when the argument is \<^verbatim>\<open>undefined\<close>.\<close>

definition default_to :: "string \<Rightarrow> string option \<Rightarrow> string" where
  "default_to d x = (case x of None \<Rightarrow> d | Some s \<Rightarrow> s)"

definition getERC20TokenBalance ::
  "env \<Rightarrow> string \<Rightarrow> string \<Rightarrow> string \<Rightarrow> string option \<Rightarrow> string \<Rightarrow> world \<Rightarrow> outcome" where
  "getERC20TokenBalance E chainId address contractAddress blockHeight apiKey =
     perform ''tokenApi/getERC20TokenBalance'' ''Failed to fetch ERC20 token balance'' E
       (get_request (platform @ ''/v1/cdc-developer-platform/token/'' @ chainId
          @ ''/erc20-token-balance?address='' @ address
          @ ''&contractAddress='' @ contractAddress
          @ ''&blockHeight='' @ default_to ''latest'' blockHeight
          @ ''&apiKey='' @ apiKey))"

definition transferToken :: "env \<Rightarrow> string \<Rightarrow> object \<Rightarrow> string option \<Rightarrow> world \<Rightarrow> outcome" where
  "transferToken E chainId payload provider =
     perform ''tokenApi/transferToken'' ''Failed to transfer token'' E
       (post_request (platform @ ''/v1/cdc-developer-platform/token/'' @ chainId @ ''/transfer'')
          (Some (JSON_stringify (with_provider payload provider))))"

definition wrapToken :: "env \<Rightarrow> string \<Rightarrow> object \<Rightarrow> string option \<Rightarrow> world \<Rightarrow> outcome" where
  "wrapToken E chainId payload provider =
     perform ''tokenApi/wrapToken'' ''Failed to wrap token'' E
       (post_request (platform @ ''/v1/cdc-developer-platform/transaction/'' @ chainId @ ''/wrap'')
          (Some (JSON_stringify (with_provider payload provider))))"

definition swapToken :: "env \<Rightarrow> string \<Rightarrow> object \<Rightarrow> string option \<Rightarrow> world \<Rightarrow> outcome" where
  "swapToken E chainId payload provider =
     perform ''tokenApi/swapToken'' ''Failed to swap token'' E
       (post_request (platform @ ''/v1/cdc-developer-platform/transaction/'' @ chainId @ ''/swap'')
          (Some (JSON_stringify (with_provider payload provider))))"

subsection \<open>block.api.ts\<close>

definition getBlockByTag ::
  "env \<Rightarrow> string \<Rightarrow> string \<Rightarrow> string option \<Rightarrow> string \<Rightarrow> world \<Rightarrow> outcome" where
  "getBlockByTag E chainId blockTag txDetail apiKey =
     perform ''transactionApi/getBlockByTag'' ''Failed to fetch block by tag'' E
       (get_request (''http://localhost:8000/v1/cdc-developer-platform/block/'' @ chainId
          @ ''/block-tag?blockTag='' @ blockTag
          @ ''&txDetail='' @ default_to '''' txDetail
          @ ''&apiKey='' @ apiKey))"

subsection \<open>transaction.api.ts\<close>

definition getTransactionsByAddress ::
  "env \<Rightarrow> string \<Rightarrow> string \<Rightarrow> string option \<Rightarrow> string option \<Rightarrow> string \<Rightarrow> world \<Rightarrow> outcome" where
  "getTransactionsByAddress E chainId address session limit apiKey =
     perform ''transactionApi/getTransactionsByAddress''
       ''Failed to fetch transactions by address'' E
       (get_request (platform @ ''/api/v1/cdc-developer-platform/transaction/'' @ chainId
          @ ''/address?address='' @ address
          @ ''&session='' @ default_to '''' session
          @ ''&limit='' @ default_to ''20'' limit
          @ ''&apiKey='' @ apiKey))"

definition getTransactionByHash :: "env \<Rightarrow> string \<Rightarrow> string \<Rightarrow> string \<Rightarrow> world \<Rightarrow> outcome" where
  "getTransactionByHash E chainId txHash apiKey =
     perform ''transactionApi/getTransactionByHash'' ''Failed to fetch transaction by hash'' E
       (get_request (platform @ ''/v1/cdc-developer-platform/transaction/'' @ chainId
          @ ''/tx-hash?txHash='' @ txHash @ ''&apiKey='' @ apiKey))"

definition getTransactionStatus :: "env \<Rightarrow> string \<Rightarrow> string \<Rightarrow> string \<Rightarrow> world \<Rightarrow> outcome" where
  "getTransactionStatus E chainId txHash apiKey =
     perform ''transactionApi/getTransactionStatus'' ''Failed to fetch transaction status'' E
       (get_request (platform @ ''/v1/cdc-developer-platform/transaction/'' @ chainId
          @ ''/status?txHash='' @ txHash @ ''&apiKey='' @ apiKey))"

subsection \<open>contract.api.ts\<close>

definition getContractABI :: "env \<Rightarrow> string \<Rightarrow> string \<Rightarrow> string \<Rightarrow> world \<Rightarrow> outcome" where
  "getContractABI E chainId contractAddress apiKey =
     perform ''contractApi/getContractABI'' ''Failed to fetch contract ABI'' E
       (get_request (platform @ ''/api/v1/cdc-developer-platform/contract/'' @ chainId
          @ ''/contract-abi?contractAddress='' @ contractAddress @ ''&apiKey='' @ apiKey))"

text \<open>
  The other revision of the function addresses \<^verbatim>\<open>BaseUrl\<close>. Before the request it
  prints a banner with the time of day through \<^verbatim>\<open>console.log\<close>; that stream is not
  part of \<^typ>\<open>world\<close>.
\<close>

definition getContractABI_v2 :: "env \<Rightarrow> string \<Rightarrow> string \<Rightarrow> string \<Rightarrow> world \<Rightarrow> outcome" where
  "getContractABI_v2 E chainId contractAddress apiKey =
     perform ''contractApi/getContractABI'' ''Failed to fetch contract ABI'' E
       (get_request (BaseUrl E @ ''/v1/cdc-developer-platform/contract/'' @ chainId
          @ ''/contract-abi?contractAddress='' @ contractAddress @ ''&apiKey='' @ apiKey))"

section \<open>The facades\<close>

text \<open>
  A facade method reads the configuration first. A getter that throws ends the method
  there, before anything is sent or logged.
\<close>

definition reading :: "js_error + 'a \<Rightarrow> ('a \<Rightarrow> world \<Rightarrow> outcome) \<Rightarrow> world \<Rightarrow> outcome" where
  "reading g k w = (case g of Inl e \<Rightarrow> (Inl e, w) | Inr x \<Rightarrow> k x w)"

subsection \<open>Wallet\<close>

definition Wallet_create :: "env \<Rightarrow> client \<Rightarrow> world \<Rightarrow> outcome" where
  "Wallet_create E C = createWallet E"

definition Wallet_balance :: "env \<Rightarrow> client \<Rightarrow> string \<Rightarrow> world \<Rightarrow> outcome" where
  "Wallet_balance E C address =
     reading (getChainId C) (\<lambda>chainId. getBalance E chainId address)"

text \<open>The other revision of the class, which also reads and passes the API key.\<close>

definition Wallet_create_v2 :: "env \<Rightarrow> client \<Rightarrow> world \<Rightarrow> outcome" where
  "Wallet_create_v2 E C = createWallet_v2 E"

definition Wallet_balance_v2 :: "env \<Rightarrow> client \<Rightarrow> string \<Rightarrow> world \<Rightarrow> outcome" where
  "Wallet_balance_v2 E C address =
     reading (getChainId C) (\<lambda>chainId.
     reading (getApiKey C) (\<lambda>apiKey. getBalance_v2 E chainId address apiKey))"

subsection \<open>Token\<close>

definition Token_getNativeTokenBalance :: "env \<Rightarrow> client \<Rightarrow> string \<Rightarrow> world \<Rightarrow> outcome" where
  "Token_getNativeTokenBalance E C address =
     reading (getChainId C) (\<lambda>chainId.
     reading (getApiKey C) (\<lambda>apiKey. getNativeTokenBalance E chainId address apiKey))"

definition Token_getERC20TokenBalance ::
  "env \<Rightarrow> client \<Rightarrow> string \<Rightarrow> string \<Rightarrow> string option \<Rightarrow> world \<Rightarrow> outcome" where
  "Token_getERC20TokenBalance E C address contractAddress blockHeight =
     reading (getChainId C) (\<lambda>chainId.
     reading (getApiKey C) (\<lambda>apiKey.
       getERC20TokenBalance E chainId address contractAddress
         (Some (default_to ''latest'' blockHeight)) apiKey))"

definition Token_transfer :: "env \<Rightarrow> client \<Rightarrow> object \<Rightarrow> world \<Rightarrow> outcome" where
  "Token_transfer E C payload =
     reading (getChainId C) (\<lambda>chainId.
     reading (getProvider C) (\<lambda>provider. transferToken E chainId payload provider))"

definition Token_wrap :: "env \<Rightarrow> client \<Rightarrow> object \<Rightarrow> world \<Rightarrow> outcome" where
  "Token_wrap E C payload =
     reading (getChainId C) (\<lambda>chainId.
     reading (getProvider C) (\<lambda>provider. wrapToken E chainId payload provider))"

definition Token_swap :: "env \<Rightarrow> client \<Rightarrow> object \<Rightarrow> world \<Rightarrow> outcome" where
  "Token_swap E C payload =
     reading (getChainId C) (\<lambda>chainId.
     reading (getProvider C) (\<lambda>provider. swapToken E chainId payload provider))"

subsection \<open>Transaction\<close>

definition Transaction_getTransactionsByAddress ::
  "env \<Rightarrow> client \<Rightarrow> string \<Rightarrow> string option \<Rightarrow> string option \<Rightarrow> world \<Rightarrow> outcome" where
  "Transaction_getTransactionsByAddress E C address session limit =
     reading (getChainId C) (\<lambda>chainId.
     reading (getApiKey C) (\<lambda>apiKey.
       getTransactionsByAddress E chainId address session limit apiKey))"

definition Transaction_getTransactionByHash :: "env \<Rightarrow> client \<Rightarrow> string \<Rightarrow> world \<Rightarrow> outcome" where
  "Transaction_getTransactionByHash E C txHash =
     reading (getChainId C) (\<lambda>chainId.
     reading (getApiKey C) (\<lambda>apiKey. getTransactionByHash E chainId txHash apiKey))"

definition Transaction_getTransactionStatus :: "env \<Rightarrow> client \<Rightarrow> string \<Rightarrow> world \<Rightarrow> outcome" where
  "Transaction_getTransactionStatus E C txHash =
     reading (getChainId C) (\<lambda>chainId.
     reading (getApiKey C) (\<lambda>apiKey. getTransactionStatus E chainId txHash apiKey))"

subsection \<open>Contract and Block\<close>

definition Contract_getContractABI :: "env \<Rightarrow> client \<Rightarrow> string \<Rightarrow> world \<Rightarrow> outcome" where
  "Contract_getContractABI E C contractAddress =
     reading (getChainId C) (\<lambda>chainId.
     reading (getApiKey C) (\<lambda>apiKey. getContractABI E chainId contractAddress apiKey))"

definition Contract_getContractABI_v2 :: "env \<Rightarrow> client \<Rightarrow> string \<Rightarrow> world \<Rightarrow> outcome" where
  "Contract_getContractABI_v2 E C contractAddress =
     reading (getChainId C) (\<lambda>chainId.
     reading (getApiKey C) (\<lambda>apiKey. getContractABI_v2 E chainId contractAddress apiKey))"

definition Block_getBlockByTag ::
  "env \<Rightarrow> client \<Rightarrow> string \<Rightarrow> string option \<Rightarrow> world \<Rightarrow> outcome" where
  "Block_getBlockByTag E C blockTag txDetail =
     reading (getChainId C) (\<lambda>chainId.
     reading (getApiKey C) (\<lambda>apiKey. getBlockByTag E chainId blockTag txDetail apiKey))"

subsection \<open>Every facade operation, as one call\<close>

datatype call =
    WalletCreate
  | WalletBalance string
  | WalletCreate_v2
  | WalletBalance_v2 string
  | TokenGetNativeTokenBalance string
  | TokenGetERC20TokenBalance string string "string option"
  | TokenTransfer object
  | TokenWrap object
  | TokenSwap object
  | TransactionGetTransactionsByAddress string "string option" "string option"
  | TransactionGetTransactionByHash string
  | TransactionGetTransactionStatus string
  | ContractGetContractABI string
  | ContractGetContractABI_v2 string
  | BlockGetBlockByTag string "string option"

fun invoke :: "env \<Rightarrow> client \<Rightarrow> call \<Rightarrow> world \<Rightarrow> outcome" where
  "invoke E C WalletCreate = Wallet_create E C"
| "invoke E C (WalletBalance a) = Wallet_balance E C a"
| "invoke E C WalletCreate_v2 = Wallet_create_v2 E C"
| "invoke E C (WalletBalance_v2 a) = Wallet_balance_v2 E C a"
| "invoke E C (TokenGetNativeTokenBalance a) = Token_getNativeTokenBalance E C a"
| "invoke E C (TokenGetERC20TokenBalance a c h) = Token_getERC20TokenBalance E C a c h"
| "invoke E C (TokenTransfer p) = Token_transfer E C p"
| "invoke E C (TokenWrap p) = Token_wrap E C p"
| "invoke E C (TokenSwap p) = Token_swap E C p"
| "invoke E C (TransactionGetTransactionsByAddress a s l) =
     Transaction_getTransactionsByAddress E C a s l"
| "invoke E C (TransactionGetTransactionByHash h) = Transaction_getTransactionByHash E C h"
| "invoke E C (TransactionGetTransactionStatus h) = Transaction_getTransactionStatus E C h"
| "invoke E C (ContractGetContractABI a) = Contract_getContractABI E C a"
| "invoke E C (ContractGetContractABI_v2 a) = Contract_getContractABI_v2 E C a"
| "invoke E C (BlockGetBlockByTag t d) = Block_getBlockByTag E C t d"

subsection \<open>What a caller is told when an operation fails\<close>

text \<open>The text each integration function puts in front of the message it throws.\<close>

fun failure_text :: "call \<Rightarrow> string" where
  "failure_text WalletCreate = ''Failed to create wallet''"
| "failure_text (WalletBalance a) = ''Failed to fetch wallet balance''"
| "failure_text WalletCreate_v2 = ''Failed to create wallet''"
| "failure_text (WalletBalance_v2 a) = ''Failed to fetch wallet balance''"
| "failure_text (TokenGetNativeTokenBalance a) = ''Failed to fetch native token balance''"
| "failure_text (TokenGetERC20TokenBalance a c h) = ''Failed to fetch ERC20 token balance''"
| "failure_text (TokenTransfer p) = ''Failed to transfer token''"
| "failure_text (TokenWrap p) = ''Failed to wrap token''"
| "failure_text (TokenSwap p) = ''Failed to swap token''"
| "failure_text (TransactionGetTransactionsByAddress a s l) =
     ''Failed to fetch transactions by address''"
| "failure_text (TransactionGetTransactionByHash h) = ''Failed to fetch transaction by hash''"
| "failure_text (TransactionGetTransactionStatus h) = ''Failed to fetch transaction status''"
| "failure_text (ContractGetContractABI a) = ''Failed to fetch contract ABI''"
| "failure_text (ContractGetContractABI_v2 a) = ''Failed to fetch contract ABI''"
| "failure_text (BlockGetBlockByTag t d) = ''Failed to fetch block by tag''"

text \<open>The \<^verbatim>\<open>catch\<close> block, seen from the caller: a value passes, an error is rewrapped.\<close>

definition caught :: "string \<Rightarrow> js_error + json \<Rightarrow> js_error + json" where
  "caught failed x =
     (case x of Inr v \<Rightarrow> Inr v | Inl e \<Rightarrow> Inl (Thrown ''Error'' (failed @ '': '' @ message e)))"

text \<open>The tag under which each integration function logs what it caught.\<close>

fun api_tag :: "call \<Rightarrow> string" where
  "api_tag WalletCreate = ''walletApi/createWallet''"
| "api_tag (WalletBalance a) = ''walletApi/getBalance''"
| "api_tag WalletCreate_v2 = ''walletApi/createWallet''"
| "api_tag (WalletBalance_v2 a) = ''walletApi/getBalance''"
| "api_tag (TokenGetNativeTokenBalance a) = ''tokenApi/getNativeTokenBalance''"
| "api_tag (TokenGetERC20TokenBalance a c h) = ''tokenApi/getERC20TokenBalance''"
| "api_tag (TokenTransfer p) = ''tokenApi/transferToken''"
| "api_tag (TokenWrap p) = ''tokenApi/wrapToken''"
| "api_tag (TokenSwap p) = ''tokenApi/swapToken''"
| "api_tag (TransactionGetTransactionsByAddress a s l) =
     ''transactionApi/getTransactionsByAddress''"
| "api_tag (TransactionGetTransactionByHash h) = ''transactionApi/getTransactionByHash''"
| "api_tag (TransactionGetTransactionStatus h) = ''transactionApi/getTransactionStatus''"
| "api_tag (ContractGetContractABI a) = ''contractApi/getContractABI''"
| "api_tag (ContractGetContractABI_v2 a) = ''contractApi/getContractABI''"
| "api_tag (BlockGetBlockByTag t d) = ''transactionApi/getBlockByTag''"

text \<open>The calls that read nothing from \<^verbatim>\<open>Client\<close>.\<close>

fun is_Wallet_create :: "call \<Rightarrow> bool" where
  "is_Wallet_create WalletCreate = True"
| "is_Wallet_create WalletCreate_v2 = True"
| "is_Wallet_create c = False"

text \<open>The payload of the three calls that post one.\<close>

fun post_payload :: "call \<Rightarrow> object option" where
  "post_payload (TokenTransfer p) = Some p"
| "post_payload (TokenWrap p) = Some p"
| "post_payload (TokenSwap p) = Some p"
| "post_payload c = None"


text \<open>
  The parameter type that \<^verbatim>\<open>Token.wrap\<close> declares, \<^verbatim>\<open>{ amount: number }\<close>, and
  the one that \<^verbatim>\<open>wrapToken\<close> and \<^verbatim>\<open>Token.swap\<close> declare, with the two contract
  addresses. Further properties are allowed by both, as in TypeScript.
\<close>

fun is_number :: "json option option \<Rightarrow> bool" where
  "is_number (Some (Some (JNum t))) = True"
| "is_number x = False"

fun is_string :: "json option option \<Rightarrow> bool" where
  "is_string (Some (Some (JStr s))) = True"
| "is_string x = False"

definition Token_wrap_payload :: "object \<Rightarrow> bool" where
  "Token_wrap_payload p = is_number (map_of p ''amount'')"

definition wrapToken_payload :: "object \<Rightarrow> bool" where
  "wrapToken_payload p =
     (is_number (map_of p ''amount'')
      \<and> is_string (map_of p ''fromContractAddress'')
      \<and> is_string (map_of p ''toContractAddress''))"

subsection \<open>Sample surroundings\<close>

definition simulated :: "fetch_result \<Rightarrow> env" where
  "simulated x = \<lparr>BaseUrl = ''http://localhost:8000'', remote = remote_always x\<rparr>"

definition mainnet_client :: client where
  "mainnet_client =
     init \<lparr>config_chain = chain_value CronosEvm_Mainnet, config_apiKey = ''your-api-key'',
           config_provider = Some ''https://provider-url.com''\<rparr> uninitialised"

definition offline :: env where
  "offline = simulated (Rejected (Thrown ''TypeError'' ''fetch failed''))"

definition balance_envelope :: json where
  "balance_envelope =
     JObj [(''status'', JStr ''Success''), (''data'', JObj [(''balance'', JStr ''12.5'')])]"

section \<open>How every operation reaches the remote service\<close>

lemma perform_fetched: "fetched (snd (perform tag failed E req w)) = fetched w @ [req]"
  by (simp add: perform_def Let_def split: sum.splits)

lemma perform_result:
  "fst (perform tag failed E req w) = caught failed (try_block (remote E req))"
  by (simp add: perform_def caught_def Let_def split: sum.splits)


lemmas integration_defs =
  createWallet_def getBalance_def createWallet_v2_def getBalance_v2_def
  getNativeTokenBalance_def getERC20TokenBalance_def transferToken_def wrapToken_def
  swapToken_def getBlockByTag_def getTransactionsByAddress_def getTransactionByHash_def
  getTransactionStatus_def getContractABI_def getContractABI_v2_def

lemmas facade_defs =
  Wallet_create_def Wallet_balance_def Wallet_create_v2_def Wallet_balance_v2_def
  Token_getNativeTokenBalance_def Token_getERC20TokenBalance_def Token_transfer_def
  Token_wrap_def Token_swap_def Transaction_getTransactionsByAddress_def
  Transaction_getTransactionByHash_def Transaction_getTransactionStatus_def
  Contract_getContractABI_def Contract_getContractABI_v2_def Block_getBlockByTag_def

lemmas eval_defs = facade_defs integration_defs reading_def getProvider_def getChainId_def
  getApiKey_def perform_def try_block_def Let_def remote_always_def init_def
  uninitialised_def world0_def get_request_def post_request_def platform_def ok_def
  json_headers_def

lemmas sample_defs = simulated_def mainnet_client_def




text \<open>
  With a chain and an API key configured, every operation is one run of an integration
  function, under the operation's own tag and failure text: it hands one request to
  \<^verbatim>\<open>fetch\<close>.
\<close>

lemma configured_performs:
  assumes "getChainId C = Inr cid" and "getApiKey C = Inr key"
  shows "\<exists>req. invoke E C c w = perform (api_tag c) (failure_text c) E req w"
  using assms
  by (cases c;
      simp add: facade_defs integration_defs reading_def getProvider_def;
      blast)


section \<open>Successful replies\<close>



section \<open>Failing replies\<close>







text \<open>
  The status code reaches the caller when the body does parse, as an object without an
  \<^verbatim>\<open>error\<close> property.
\<close>

lemma status_code_fallback:
  assumes "getChainId C = Inr cid" and "getApiKey C = Inr key"
  shows "\<exists>req. fetched (snd (invoke E C c w)) = fetched w @ [req]
           \<and> (\<forall>r ps. remote E req = Resolved r \<and> \<not> ok r
                      \<and> response_json r = Inr (JObj ps) \<and> map_of ps ''error'' = None
                 \<longrightarrow> fst (invoke E C c w)
                       = Inl (Thrown ''Error''
                           (failure_text c @ '': HTTP error! status: '' @ show_nat (status r))))"
proof -
  from configured_performs [OF assms] obtain req
    where p: "invoke E C c w = perform (api_tag c) (failure_text c) E req w"
    by blast
  have "fetched (snd (invoke E C c w)) = fetched w @ [req]"
    by (simp add: p perform_fetched)
  moreover have "fst (invoke E C c w)
      = Inl (Thrown ''Error''
          (failure_text c @ '': HTTP error! status: '' @ show_nat (status r)))"
    if "remote E req = Resolved r" and "\<not> ok r" and "response_json r = Inr (JObj ps)"
      and "map_of ps ''error'' = None" for r ps
    using that by (simp add: p perform_result try_block_def caught_def)
  ultimately show ?thesis by blast
qed

section \<open>Transport failures\<close>




section \<open>The configuration getters\<close>

text \<open>
  C8. \<^verbatim>\<open>Client.getProvider\<close> never raises: in every state of the configuration it
  returns the stored provider, which is absent before \<^verbatim>\<open>Client.init\<close> and is the
  provider of the configuration after it.
\<close>

theorem getProvider_never_raises:
  "getProvider C = Inr (Client_provider C)
   \<and> getProvider uninitialised = Inr None
   \<and> getProvider (init config C) = Inr (config_provider config)"
  by (simp add: getProvider_def uninitialised_def init_def)

text \<open>
  C10. \<^verbatim>\<open>Client.getApiKey\<close> returns a key exactly when the stored key is a string that
  is not empty, and throws its not-configured error otherwise; so it throws after
  \<^verbatim>\<open>Client.init\<close> with an empty API key. \<^verbatim>\<open>Client.getChainId\<close> does the same with
  the stored chain.
\<close>

theorem getters_need_non_empty_strings:
  "(getApiKey C = Inr k) = (Client_apiKey C = Some k \<and> k \<noteq> '''')
   \<and> (getApiKey C = Inl e)
       = (e = api_key_not_configured \<and> Client_apiKey C \<in> {None, Some ''''})
   \<and> getApiKey (init \<lparr>config_chain = ch, config_apiKey = '''', config_provider = pr\<rparr> C)
       = Inl api_key_not_configured
   \<and> (getChainId C = Inr k) = (Client_chainId C = Some k \<and> k \<noteq> '''')
   \<and> (getChainId C = Inl e)
       = (e = chain_id_not_configured \<and> Client_chainId C \<in> {None, Some ''''})
   \<and> getChainId (init \<lparr>config_chain = '''', config_apiKey = key, config_provider = pr\<rparr> C)
       = Inl chain_id_not_configured"
  by (auto simp: getApiKey_def getChainId_def init_def split: option.splits)

section \<open>Operations called before the client is initialised\<close>

text \<open>
  C1, as stated, fails. \<^verbatim>\<open>Wallet.create\<close> called before \<^verbatim>\<open>Client.init\<close> sends its
  request and returns what the remote service answers.
\<close>

theorem wallet_create_before_init_counterexample:
  "fst (invoke (simulated (Resolved \<lparr>status = 200, response_json = Inr balance_envelope\<rparr>))
          uninitialised WalletCreate world0) = Inr balance_envelope
   \<and> fetched (snd (invoke
          (simulated (Resolved \<lparr>status = 200, response_json = Inr balance_envelope\<rparr>))
          uninitialised WalletCreate world0))
     = [post_request ''http://localhost:8000/v1/cdc-developer-platform/wallet'' None]"
  by (simp add: eval_defs sample_defs)

lemma getChainId_uninitialised: "getChainId uninitialised = Inl chain_id_not_configured"
  by (simp add: getChainId_def uninitialised_def)

text \<open>
  C1, amended. For every facade operation other than \<^verbatim>\<open>Wallet.create\<close>: called before
  \<^verbatim>\<open>Client.init\<close>, it fails with the not-configured error of \<^verbatim>\<open>Client.getChainId\<close>,
  and the world is as it was, so no request is issued. \<^verbatim>\<open>Wallet.create\<close> reads no
  configuration: whatever the state of the client, before \<^verbatim>\<open>Client.init\<close> too, it
  issues its one POST request, without a body, to the wallet address.
\<close>

theorem uninitialised_fails_fast:
  "(\<not> is_Wallet_create c \<longrightarrow> invoke E uninitialised c w = (Inl chain_id_not_configured, w))
   \<and> fetched (snd (invoke E C WalletCreate w))
       = fetched w @ [post_request (BaseUrl E @ ''/v1/cdc-developer-platform/wallet'') None]
   \<and> fetched (snd (invoke E C WalletCreate_v2 w))
       = fetched w @ [post_request (platform @ ''/api/v1/cdc-developer-platform/wallet'') None]"
  by (cases c)
     (simp_all add: facade_defs reading_def getChainId_uninitialised createWallet_def
        createWallet_v2_def perform_fetched)

theorem uninitialised_fails_fast_witness:
  "invoke (simulated (Resolved \<lparr>status = 200, response_json = Inr balance_envelope\<rparr>))
      uninitialised (TokenGetNativeTokenBalance ''0xabc'') world0
     = (Inl chain_id_not_configured, world0)
   \<and> fetched (snd (invoke
        (simulated (Resolved \<lparr>status = 200, response_json = Inr balance_envelope\<rparr>))
        uninitialised WalletCreate_v2 world0))
     = [post_request
          ''https://developer-platform-api.crypto.com/api/v1/cdc-developer-platform/wallet''
          None]"
  using uninitialised_fails_fast [of "TokenGetNativeTokenBalance ''0xabc''"
          "simulated (Resolved \<lparr>status = 200, response_json = Inr balance_envelope\<rparr>)" world0
          uninitialised]
  by (simp add: world0_def platform_def)

section \<open>What the requests carry\<close>

text \<open>
  C5. \<^verbatim>\<open>Token.getERC20TokenBalance\<close> called without a block height sends a request
  whose query has \<^verbatim>\<open>blockHeight=latest\<close>; \<^verbatim>\<open>Transaction.getTransactionsByAddress\<close>
  called without session and limit sends one whose query has an empty \<^verbatim>\<open>session=\<close> and
  \<^verbatim>\<open>limit=20\<close>.
\<close>

theorem default_query_parameters:
  assumes "getChainId C = Inr cid" and "getApiKey C = Inr key"
  shows "fetched (snd (invoke E C (TokenGetERC20TokenBalance address contract None) w))
           = fetched w @ [get_request (platform @ ''/v1/cdc-developer-platform/token/'' @ cid
               @ ''/erc20-token-balance?address='' @ address @ ''&contractAddress='' @ contract
               @ ''&blockHeight=latest&apiKey='' @ key)]
         \<and> fetched (snd (invoke E C (TransactionGetTransactionsByAddress address None None) w))
           = fetched w @ [get_request (platform @ ''/api/v1/cdc-developer-platform/transaction/''
               @ cid @ ''/address?address='' @ address @ ''&session=&limit=20&apiKey='' @ key)]"
  using assms
  by (simp add: Token_getERC20TokenBalance_def Transaction_getTransactionsByAddress_def
        reading_def getERC20TokenBalance_def getTransactionsByAddress_def perform_fetched
        default_to_def)

theorem default_query_parameters_witness:
  "fetched (snd (invoke offline mainnet_client
       (TokenGetERC20TokenBalance ''0xabc'' ''0xdef'' None) world0))
     = [get_request ''https://developer-platform-api.crypto.com/v1/cdc-developer-platform/token/25/erc20-token-balance?address=0xabc&contractAddress=0xdef&blockHeight=latest&apiKey=your-api-key'']
   \<and> fetched (snd (invoke offline mainnet_client
       (TransactionGetTransactionsByAddress ''0xabc'' None None) world0))
     = [get_request ''https://developer-platform-api.crypto.com/api/v1/cdc-developer-platform/transaction/25/address?address=0xabc&session=&limit=20&apiKey=your-api-key'']"
proof -
  have h1: "getChainId mainnet_client = Inr ''25''"
    by (simp add: getChainId_def mainnet_client_def init_def)
  have h2: "getApiKey mainnet_client = Inr ''your-api-key''"
    by (simp add: getApiKey_def mainnet_client_def init_def)
  from default_query_parameters [OF h1 h2, of offline "''0xabc''" "''0xdef''" world0]
  show ?thesis by (simp add: platform_def world0_def)
qed

text \<open>
  C6. \<^verbatim>\<open>Token.wrap\<close> declares a payload of \<^verbatim>\<open>amount\<close> alone. A payload without the
  two contract addresses is accepted, and the request goes out without them.
\<close>

theorem wrap_without_addresses:
  "Token_wrap_payload [(''amount'', Some (JNum ''1''))]
   \<and> \<not> wrapToken_payload [(''amount'', Some (JNum ''1''))]
   \<and> fetched (snd (invoke offline mainnet_client
        (TokenWrap [(''amount'', Some (JNum ''1''))]) world0))
     = [post_request
          ''https://developer-platform-api.crypto.com/v1/cdc-developer-platform/transaction/25/wrap''
          (Some (JObj [(''amount'', JNum ''1''), (''provider'', JStr ''https://provider-url.com'')]))]"
  by (simp add: Token_wrap_def wrapToken_def reading_def getChainId_def getProvider_def
        mainnet_client_def init_def uninitialised_def perform_fetched world0_def platform_def
        Token_wrap_payload_def wrapToken_payload_def JSON_stringify_def with_provider_def)

subsection \<open>The body of the three posting operations\<close>

lemma map_of_set_prop: "map_of (set_prop k v ps) = (map_of ps)(k \<mapsto> v)"
  by (induction ps) (auto simp: fun_eq_iff)

lemma keys_set_prop: "set (map fst (set_prop k v ps)) = insert k (set (map fst ps))"
  by (induction ps) auto

lemma distinct_set_prop: "distinct (map fst ps) \<Longrightarrow> distinct (map fst (set_prop k v ps))"
proof (induction ps)
  case Nil
  then show ?case by simp
next
  case (Cons p ps)
  then show ?case using keys_set_prop [of k v ps] by (auto simp del: set_map)
qed

lemma map_of_defined_props_absent:
  "k \<notin> set (map fst ps) \<Longrightarrow> map_of (defined_props ps) k = None"
  by (induction ps rule: defined_props.induct) auto

lemma map_of_defined_props:
  "distinct (map fst ps) \<Longrightarrow>
   map_of (defined_props ps) k = (case map_of ps k of Some (Some v) \<Rightarrow> Some v | _ \<Rightarrow> None)"
proof (induction ps rule: defined_props.induct)
  case 1
  then show ?case by simp
next
  case (2 k' ps)
  then have "k' \<notin> set (map fst ps)" by simp
  then have "map_of (defined_props ps) k' = None" and "map_of ps k' = None"
    by (simp_all add: map_of_defined_props_absent map_of_eq_None_iff)
  with 2 show ?case by simp
next
  case (3 k' v ps)
  then show ?case by simp
qed

text \<open>
  C9. For \<^verbatim>\<open>Token.transfer\<close>, \<^verbatim>\<open>Token.wrap\<close> and \<^verbatim>\<open>Token.swap\<close>, the body of the
  POST request is the caller's payload with \<^verbatim>\<open>provider\<close> set to the provider of the
  configuration: every other property that is defined is in the body with its value, and
  \<^verbatim>\<open>provider\<close> is the configured one, or missing from the body when none is configured,
  whatever the caller put under that key.
\<close>

theorem provider_override:
  assumes "post_payload c = Some p" and "getChainId C = Inr cid" and "distinct (map fst p)"
  shows "\<exists>u b. fetched (snd (invoke E C c w)) = fetched w @ [post_request u (Some (JObj b))]
           \<and> JObj b = JSON_stringify (with_provider p (Client_provider C))
           \<and> map_of b ''provider'' = map_option JStr (Client_provider C)
           \<and> (\<forall>k. k \<noteq> ''provider'' \<longrightarrow>
                 map_of b k = (case map_of p k of Some (Some v) \<Rightarrow> Some v | _ \<Rightarrow> None))"
proof -
  let ?b = "defined_props (with_provider p (Client_provider C))"
  have d: "distinct (map fst (with_provider p (Client_provider C)))"
    unfolding with_provider_def using assms(3) by (rule distinct_set_prop)
  have look: "map_of ?b k =
      (case ((map_of p)(''provider'' \<mapsto> map_option JStr (Client_provider C))) k of
         Some (Some v) \<Rightarrow> Some v | _ \<Rightarrow> None)" for k
    using map_of_defined_props [OF d, of k] by (simp add: with_provider_def map_of_set_prop)
  have prov: "map_of ?b ''provider'' = map_option JStr (Client_provider C)"
    using look [of "''provider''"] by (cases "Client_provider C") simp_all
  have rest: "\<forall>k. k \<noteq> ''provider'' \<longrightarrow>
      map_of ?b k = (case map_of p k of Some (Some v) \<Rightarrow> Some v | _ \<Rightarrow> None)"
    using look by simp
  have sent: "\<exists>u. fetched (snd (invoke E C c w)) = fetched w @ [post_request u (Some (JObj ?b))]"
    using assms(1,2)
    by (cases c;
        simp add: Token_transfer_def Token_wrap_def Token_swap_def reading_def
          getProvider_def transferToken_def wrapToken_def swapToken_def perform_fetched
          JSON_stringify_def;
        blast)
  from sent prov rest show ?thesis by (auto simp: JSON_stringify_def)
qed

theorem provider_override_witness:
  "fetched (snd (invoke offline
       (init \<lparr>config_chain = ''338'', config_apiKey = ''k'', config_provider = None\<rparr>
          uninitialised)
       (TokenTransfer [(''to'', Some (JStr ''0xabc'')),
                       (''provider'', Some (JStr ''https://other'')),
                       (''amount'', Some (JNum ''1'')), (''contractAddress'', None)]) world0))
   = [post_request
        ''https://developer-platform-api.crypto.com/v1/cdc-developer-platform/token/338/transfer''
        (Some (JObj [(''to'', JStr ''0xabc''), (''amount'', JNum ''1'')]))]"
proof -
  let ?C = "init \<lparr>config_chain = ''338'', config_apiKey = ''k'', config_provider = None\<rparr>
              uninitialised"
  let ?p = "[(''to'', Some (JStr ''0xabc'')), (''provider'', Some (JStr ''https://other'')),
             (''amount'', Some (JNum ''1'')), (''contractAddress'', None)]"
  let ?E = offline
  have h1: "post_payload (TokenTransfer ?p) = Some ?p" by simp
  have h2: "getChainId ?C = Inr ''338''" by (simp add: getChainId_def init_def)
  have h3: "distinct (map fst ?p)" by simp
  have b: "JSON_stringify (with_provider ?p (Client_provider ?C))
             = JObj [(''to'', JStr ''0xabc''), (''amount'', JNum ''1'')]"
    by (simp add: JSON_stringify_def with_provider_def init_def)
  have u: "fetched (snd (invoke ?E ?C (TokenTransfer ?p) world0))
             = fetched world0 @ [post_request u x]
       \<Longrightarrow> u = ''https://developer-platform-api.crypto.com/v1/cdc-developer-platform/token/338/transfer''"
    for u x
    by (simp add: Token_transfer_def reading_def h2 getProvider_def transferToken_def
          perform_fetched post_request_def platform_def)
  from provider_override [OF h1 h2 h3, of ?E world0] b u show ?thesis
    by (auto simp: world0_def)
qed

end
